theory Spec2Isabelle
  imports Complex_Main
begin

section \<open>Numbers\<close>

text \<open>
  The comparison service (the \<^verbatim>\<open>compare-players\<close> edge function) computes with
  JavaScript numbers. The model keeps finite numbers as exact rationals and adds the three
  non-finite values a division can produce. Rounding of IEEE doubles is not modelled. The
  five counters of a player row are INTEGER columns of the \<^verbatim>\<open>players\<close> table; on such
  values every sum and product of integers in the service is exact in a double, and only
  the divisions and the factors 1.2 and 1.15 round.
\<close>

datatype number = Fin rat | PosInf | NegInf | NaN

text \<open>
  \<^verbatim>\<open>a / b\<close> on finite operands. A zero divisor gives NaN for a zero dividend and an
  infinity otherwise (the divisors of the service are never the negative zero).
\<close>

definition js_div :: "rat \<Rightarrow> rat \<Rightarrow> number" where
  "js_div a b =
     (if b \<noteq> 0 then Fin (a / b)
      else if a = 0 then NaN
      else if a > 0 then PosInf else NegInf)"

text \<open>\<^verbatim>\<open>v > c\<close> and \<^verbatim>\<open>v < c\<close> for a finite \<open>c\<close>: every comparison with NaN is false.\<close>

fun js_gt :: "number \<Rightarrow> rat \<Rightarrow> bool" where
  "js_gt (Fin a) c = (a > c)"
| "js_gt PosInf c = True"
| "js_gt NegInf c = False"
| "js_gt NaN c = False"

fun js_lt :: "number \<Rightarrow> rat \<Rightarrow> bool" where
  "js_lt (Fin a) c = (a < c)"
| "js_lt PosInf c = False"
| "js_lt NegInf c = True"
| "js_lt NaN c = False"


section \<open>Trend calculator\<close>

text \<open>
  \<^verbatim>\<open>
  function linearRegression(values: number[]): number {
    const n = values.length;
    if (n === 0) return 0;
    const x = Array.from({ length: n }, (_, i) => i);
    const sumX = x.reduce((a, b) => a + b, 0);
    const sumY = values.reduce((a, b) => a + b, 0);
    const sumXY = x.reduce((a, b, i) => a + b * values[i], 0);
    const sumX2 = x.reduce((a, b) => a + b * b, 0);
    const slope = (n * sumXY - sumX * sumY) / (n * sumX2 - sumX * sumX);
    return slope;
  }
  \<close>
  \<open>reduce\<close> is a left fold; the callback of \<open>sumXY\<close> also receives the index, so that fold
  runs over the elements of \<open>x\<close> paired with their positions. Every index read from
  \<open>values\<close> is below \<open>n\<close>.
\<close>

definition linearRegression :: "rat list \<Rightarrow> number" where
  "linearRegression values =
     (let n = length values in
      if n = 0 then Fin 0
      else
        let x = map rat_of_nat [0..<n];
            sumX = foldl (\<lambda>a b. a + b) 0 x;
            sumY = foldl (\<lambda>a b. a + b) 0 values;
            sumXY = foldl (\<lambda>a (b, i). a + b * values ! i) 0 (zip x [0..<n]);
            sumX2 = foldl (\<lambda>a b. a + b * b) 0 x
        in js_div (rat_of_nat n * sumXY - sumX * sumY) (rat_of_nat n * sumX2 - sumX * sumX))"


section \<open>Player records\<close>

text \<open>
  \<^verbatim>\<open>interface PlayerStats\<close>, a row of the \<^verbatim>\<open>players\<close> table. The five counters are
  INTEGER columns, so they are integers here; the table puts no constraint on their sign
  or on \<open>wins \<le> matches\<close>. The field \<^verbatim>\<open>id\<close> is written \<open>id'\<close>.
\<close>

record PlayerStats =
  id' :: string
  name :: string
  sport :: string
  matches :: int
  score :: int
  assists :: int
  rebounds :: int
  wins :: int

section \<open>Numbers as text\<close>

text \<open>The decimal digits of a natural number, most significant first.\<close>

fun decimal :: "nat \<Rightarrow> string" where
  "decimal n =
     (if n < 10 then [''0123456789'' ! n]
      else decimal (n div 10) @ [''0123456789'' ! (n mod 10)])"

declare decimal.simps [simp del]

text \<open>
  An integer-valued number inside a template literal (\<^verbatim>\<open>${p1Total}\<close>): its decimal
  digits, with a minus sign when negative. (From 10 to the 21st power on, JavaScript
  switches to exponent notation; sums of three INTEGER columns stay far below.)
\<close>

definition show_int :: "int \<Rightarrow> string" where
  "show_int i = (if i < 0 then CHR ''-'' # decimal (nat (- i)) else decimal (nat i))"

text \<open>
  \<^verbatim>\<open>x.toFixed(1)\<close> for a finite \<open>x\<close> (below 10 to the 21st power in size): the sign is
  split off, \<open>n\<close> is the integer with \<open>n / 10\<close> nearest to \<open>|x|\<close>, the larger one on a
  tie, and the digits of \<open>n\<close> are printed with a point before the last one.
\<close>

definition toFixed1 :: "rat \<Rightarrow> string" where
  "toFixed1 x =
     (let s = (if x < 0 then [CHR ''-''] else []);
          n = nat \<lfloor>\<bar>x\<bar> * 10 + 1 / 2\<rfloor>
      in s @ decimal (n div 10) @ [CHR ''.''] @ decimal (n mod 10))"

section \<open>Insight generator\<close>

text \<open>
  \<^verbatim>\<open>generateInsights\<close> computes the same quantities once for each player
  (\<^verbatim>\<open>p1Total\<close> and \<^verbatim>\<open>p2Total\<close>, \<^verbatim>\<open>p1Consistency\<close> and \<^verbatim>\<open>p2Consistency\<close>,
  \<^verbatim>\<open>p1WinRate\<close> and \<^verbatim>\<open>p2WinRate\<close>, \<^verbatim>\<open>p1Stats\<close> and \<^verbatim>\<open>p2Stats\<close>);
  each pair is one function of the player here. Both divisions are guarded by
  \<^verbatim>\<open>matches > 0\<close>, so their results are finite.
\<close>

definition pTotal :: "PlayerStats \<Rightarrow> int" where
  "pTotal p = score p + assists p + rebounds p"

definition pConsistency :: "PlayerStats \<Rightarrow> rat" where
  "pConsistency p =
     (if matches p > 0 then rat_of_int (pTotal p) / rat_of_int (matches p) else 0)"

definition pWinRate :: "PlayerStats \<Rightarrow> rat" where
  "pWinRate p =
     (if matches p > 0 then (rat_of_int (wins p) / rat_of_int (matches p)) * 100 else 0)"

definition pStats :: "PlayerStats \<Rightarrow> rat list" where
  "pStats p = [rat_of_int (score p), rat_of_int (assists p), rat_of_int (rebounds p)]"

text \<open>The sentences, one function for each template literal of the source.\<close>

definition overall_sentence :: "PlayerStats \<Rightarrow> PlayerStats \<Rightarrow> string" where
  "overall_sentence leader other =
     name leader @ '' demonstrates significantly higher overall performance with ''
       @ show_int (pTotal leader) @ '' total stats vs '' @ show_int (pTotal other) @ ''.''"

definition comparable_sentence :: string where
  "comparable_sentence = ''Both players show comparable overall performance levels.''"

definition consistency_sentence :: "PlayerStats \<Rightarrow> PlayerStats \<Rightarrow> string" where
  "consistency_sentence leader other =
     name leader @ '' shows better consistency with '' @ toFixed1 (pConsistency leader)
       @ '' stats per match vs '' @ toFixed1 (pConsistency other) @ ''.''"

definition winrate_sentence :: "PlayerStats \<Rightarrow> PlayerStats \<Rightarrow> string" where
  "winrate_sentence leader other =
     name leader @ '' has a superior win rate of '' @ toFixed1 (pWinRate leader)
       @ ''% compared to '' @ toFixed1 (pWinRate other) @ ''%.''"

definition improving_sentence :: "PlayerStats \<Rightarrow> string" where
  "improving_sentence p =
     name p @ '' shows an improving performance trend across different metrics.''"

definition declining_sentence :: "PlayerStats \<Rightarrow> string" where
  "declining_sentence p =
     name p @ '' shows a declining trend in certain performance areas.''"

definition scorer_sentence :: "PlayerStats \<Rightarrow> string" where
  "scorer_sentence p =
     name p @ '' is primarily a scorer with '' @ show_int (score p) @ '' points.''"

definition playmaker_sentence :: "PlayerStats \<Rightarrow> string" where
  "playmaker_sentence p =
     name p @ '' excels in playmaking with '' @ show_int (assists p) @ '' assists.''"

text \<open>\<^verbatim>\<open>insights.push(s)\<close>: the array is threaded through the steps.\<close>

definition push :: "string list \<Rightarrow> string \<Rightarrow> string list" where
  "push insights s = insights @ [s]"

text \<open>
  Compare overall stats:
  \<^verbatim>\<open>
  if (p1Total > p2Total * 1.2) { insights.push(...player1...) }
  else if (p2Total > p1Total * 1.2) { insights.push(...player2...) }
  else { insights.push("Both players show comparable overall performance levels.") }
  \<close>
\<close>

definition overall_step :: "PlayerStats \<Rightarrow> PlayerStats \<Rightarrow> string list \<Rightarrow> string list" where
  "overall_step player1 player2 insights =
     (if rat_of_int (pTotal player1) > rat_of_int (pTotal player2) * (12 / 10) then
        push insights (overall_sentence player1 player2)
      else if rat_of_int (pTotal player2) > rat_of_int (pTotal player1) * (12 / 10) then
        push insights (overall_sentence player2 player1)
      else push insights comparable_sentence)"

text \<open>
  Analyze consistency:
  \<^verbatim>\<open>
  if (p1Consistency > p2Consistency * 1.15) { insights.push(...player1...) }
  else if (p2Consistency > p1Consistency * 1.15) { insights.push(...player2...) }
  \<close>
\<close>

definition consistency_step :: "PlayerStats \<Rightarrow> PlayerStats \<Rightarrow> string list \<Rightarrow> string list" where
  "consistency_step player1 player2 insights =
     (if pConsistency player1 > pConsistency player2 * (115 / 100) then
        push insights (consistency_sentence player1 player2)
      else if pConsistency player2 > pConsistency player1 * (115 / 100) then
        push insights (consistency_sentence player2 player1)
      else insights)"

text \<open>
  Win rate comparison:
  \<^verbatim>\<open>
  if (p1WinRate > p2WinRate) { insights.push(...player1...) }
  else if (p2WinRate > p1WinRate) { insights.push(...player2...) }
  \<close>
\<close>

definition winrate_step :: "PlayerStats \<Rightarrow> PlayerStats \<Rightarrow> string list \<Rightarrow> string list" where
  "winrate_step player1 player2 insights =
     (if pWinRate player1 > pWinRate player2 then
        push insights (winrate_sentence player1 player2)
      else if pWinRate player2 > pWinRate player1 then
        push insights (winrate_sentence player2 player1)
      else insights)"

text \<open>
  Performance trend analysis, the same statement once for each player:
  \<^verbatim>\<open>
  if (p1Trend > 0.5) { insights.push(...improving...) }
  else if (p1Trend < -0.5) { insights.push(...declining...) }
  \<close>
\<close>

definition trend_step :: "PlayerStats \<Rightarrow> number \<Rightarrow> string list \<Rightarrow> string list" where
  "trend_step player pTrend insights =
     (if js_gt pTrend (1 / 2) then push insights (improving_sentence player)
      else if js_lt pTrend (- (1 / 2)) then push insights (declining_sentence player)
      else insights)"

text \<open>
  Specialization insights, the same statement once for each player:
  \<^verbatim>\<open>
  if (player1.score > player1.assists && player1.score > player1.rebounds) { ...scorer... }
  else if (player1.assists > player1.score && player1.assists > player1.rebounds) { ...playmaking... }
  \<close>
\<close>

definition specialization_step :: "PlayerStats \<Rightarrow> string list \<Rightarrow> string list" where
  "specialization_step player insights =
     (if score player > assists player \<and> score player > rebounds player then
        push insights (scorer_sentence player)
      else if assists player > score player \<and> assists player > rebounds player then
        push insights (playmaker_sentence player)
      else insights)"

definition generateInsights :: "PlayerStats \<Rightarrow> PlayerStats \<Rightarrow> string list" where
  "generateInsights player1 player2 =
     (let insights = [];
          insights = overall_step player1 player2 insights;
          insights = consistency_step player1 player2 insights;
          insights = winrate_step player1 player2 insights;
          p1Trend = linearRegression (pStats player1);
          p2Trend = linearRegression (pStats player2);
          insights = trend_step player1 p1Trend insights;
          insights = trend_step player2 p2Trend insights;
          insights = specialization_step player1 insights;
          insights = specialization_step player2 insights
      in insights)"

section \<open>Request handler\<close>

text \<open>
  The two identifiers of the request body are JSON values: absent, null or a string.
  \<^verbatim>\<open>!player1Id\<close> holds for the first two and for the empty string.
\<close>

datatype jsval = Undefined | Null | Str string

fun falsy :: "jsval \<Rightarrow> bool" where
  "falsy Undefined = True"
| "falsy Null = True"
| "falsy (Str s) = (s = [])"

record request_body =
  player1Id :: jsval
  player2Id :: jsval

text \<open>
  What a \<^verbatim>\<open>throw\<close> carries to the \<^verbatim>\<open>catch\<close> block: an \<^verbatim>\<open>Error\<close> with its message, or a
  value that is no instance of \<^verbatim>\<open>Error\<close>.
\<close>

datatype thrown = Error string | NonError

text \<open>
  A request: its method (\<^verbatim>\<open>req.method\<close>) and the outcome of \<^verbatim>\<open>await req.json()\<close>,
  which throws on a body that is not JSON.
\<close>

record request =
  req_method :: string
  json :: "thrown + request_body"

text \<open>
  The store is an external collaborator. \<^verbatim>\<open>{ data, error }\<close> is what the query
  \<^verbatim>\<open>supabase.from('players').select('*').in('id', [player1Id, player2Id])\<close> resolves to;
  the handler is a function of the query.
\<close>

record query_result =
  data :: "PlayerStats list option"
  error :: "thrown option"

type_synonym lookup = "jsval \<Rightarrow> jsval \<Rightarrow> query_result"

text \<open>
  A store that answers: the rows of the table whose \<^verbatim>\<open>id\<close> is one of the two values, in
  table order. (\<^verbatim>\<open>id\<close> is the PRIMARY KEY of \<^verbatim>\<open>players\<close>: the ids of a table are distinct.)
\<close>

definition select_in :: "PlayerStats list \<Rightarrow> lookup" where
  "select_in rows a b =
     \<lparr>data = Some (filter (\<lambda>p. Str (id' p) = a \<or> Str (id' p) = b) rows), error = None\<rparr>"

text \<open>A store whose query fails with \<open>e\<close>.\<close>

definition failing_store :: "thrown \<Rightarrow> lookup" where
  "failing_store e a b = \<lparr>data = None, error = Some e\<rparr>"

text \<open>The response body: the six copied fields and the trend of each player, the insights.\<close>

record comparison_entry =
  c_name :: string
  c_matches :: int
  c_score :: int
  c_assists :: int
  c_rebounds :: int
  c_wins :: int

record trend_entry =
  slope :: number
  direction :: string

record 'a per_player =
  of_player1 :: 'a
  of_player2 :: 'a

record payload =
  comparison :: "comparison_entry per_player"
  trends :: "trend_entry per_player"
  insights_of :: "string list"

datatype body = NoBody | ErrorEnvelope string | Result payload

record response =
  status :: nat
  body :: body

definition entry :: "PlayerStats \<Rightarrow> comparison_entry" where
  "entry p =
     \<lparr>c_name = name p, c_matches = matches p, c_score = score p, c_assists = assists p,
      c_rebounds = rebounds p, c_wins = wins p\<rparr>"

text \<open>
  \<^verbatim>\<open>pTrend > 0 ? 'Improving performance' : pTrend < 0 ? 'Declining performance'
    : 'Stable performance'\<close>
\<close>

definition direction_label :: "number \<Rightarrow> string" where
  "direction_label pTrend =
     (if js_gt pTrend 0 then ''Improving performance''
      else if js_lt pTrend 0 then ''Declining performance''
      else ''Stable performance'')"

text \<open>The body of a successful response, from the two records found.\<close>

definition build_payload :: "PlayerStats \<Rightarrow> PlayerStats \<Rightarrow> payload" where
  "build_payload p1 p2 =
     (let comparison = \<lparr>of_player1 = entry p1, of_player2 = entry p2\<rparr>;
          p1Trend = linearRegression (pStats p1);
          p2Trend = linearRegression (pStats p2);
          insights = generateInsights p1 p2
      in \<lparr>comparison = comparison,
          trends = \<lparr>of_player1 = \<lparr>slope = p1Trend, direction = direction_label p1Trend\<rparr>,
                    of_player2 = \<lparr>slope = p2Trend, direction = direction_label p2Trend\<rparr>\<rparr>,
          insights_of = insights\<rparr>)"

text \<open>
  The \<^verbatim>\<open>try\<close> block, from the reading of the body on (the client is taken to be
  configured). Each \<^verbatim>\<open>throw\<close> is a left value. \<^verbatim>\<open>players.find(...)!\<close> yields
  \<^verbatim>\<open>undefined\<close> when no row has the identifier, and reading \<^verbatim>\<open>.name\<close> of it throws a
  TypeError (an \<^verbatim>\<open>Error\<close>; its message is the engine's).
\<close>

definition compare_players :: "lookup \<Rightarrow> request \<Rightarrow> thrown + payload" where
  "compare_players query req =
     (case json req of
        Inl e \<Rightarrow> Inl e
      | Inr b \<Rightarrow>
          if falsy (player1Id b) \<or> falsy (player2Id b) then
            Inl (Error ''Both player IDs are required'')
          else
            let r = query (player1Id b) (player2Id b) in
            (case error r of
               Some e \<Rightarrow> Inl e
             | None \<Rightarrow>
                 (case data r of
                    None \<Rightarrow> Inl (Error ''Could not find both players'')
                  | Some players \<Rightarrow>
                      if length players \<noteq> 2 then Inl (Error ''Could not find both players'')
                      else
                        (case (find (\<lambda>p. Str (id' p) = player1Id b) players,
                               find (\<lambda>p. Str (id' p) = player2Id b) players) of
                           (Some p1, Some p2) \<Rightarrow> Inr (build_payload p1 p2)
                         | _ \<Rightarrow> Inl (Error ''Cannot read properties of undefined'')))))"

text \<open>
  The handler: the pre-flight answer for OPTIONS, else the \<^verbatim>\<open>try\<close> block, with the
  \<^verbatim>\<open>catch\<close> block turning whatever was thrown into the status 500 and the body
  \<^verbatim>\<open>{ error: error instanceof Error ? error.message : 'Unknown error' }\<close>. (Every
  response also carries the CORS headers, which are left out.)
\<close>

definition serve :: "lookup \<Rightarrow> request \<Rightarrow> response" where
  "serve query req =
     (if req_method req = ''OPTIONS'' then \<lparr>status = 200, body = NoBody\<rparr>
      else
        (case compare_players query req of
           Inr p \<Rightarrow> \<lparr>status = 200, body = Result p\<rparr>
         | Inl e \<Rightarrow>
             \<lparr>status = 500,
              body = ErrorEnvelope (case e of Error m \<Rightarrow> m | NonError \<Rightarrow> ''Unknown error'')\<rparr>))"

section \<open>Example rows\<close>

text \<open>
  Rows used to run the definitions: totals 100 and 95 with win rates 80 and 40 (\<open>ann\<close>,
  \<open>bob\<close>), three equal counters (\<open>cyd\<close>), totals 120 and 90 (\<open>dee\<close>, \<open>eli\<close>).
\<close>

definition ann :: PlayerStats where
  "ann = \<lparr>id' = ''a1'', name = ''Ann'', sport = ''basketball'', matches = 10,
           score = 50, assists = 30, rebounds = 20, wins = 8\<rparr>"

definition bob :: PlayerStats where
  "bob = \<lparr>id' = ''b2'', name = ''Bob'', sport = ''basketball'', matches = 10,
           score = 20, assists = 35, rebounds = 40, wins = 4\<rparr>"

definition cyd :: PlayerStats where
  "cyd = \<lparr>id' = ''c3'', name = ''Cyd'', sport = ''basketball'', matches = 5,
           score = 10, assists = 10, rebounds = 10, wins = 2\<rparr>"

definition dee :: PlayerStats where
  "dee = \<lparr>id' = ''d4'', name = ''Dee'', sport = ''basketball'', matches = 12,
           score = 60, assists = 40, rebounds = 20, wins = 6\<rparr>"

definition eli :: PlayerStats where
  "eli = \<lparr>id' = ''e5'', name = ''Eli'', sport = ''basketball'', matches = 12,
           score = 30, assists = 40, rebounds = 20, wins = 6\<rparr>"

section \<open>Properties of the trend calculator\<close>

lemma upt_3: "[0..<3] = [0, 1, 2]"
  by (simp add: upt_rec)

lemma linearRegression_3: "linearRegression [a, b, c] = Fin ((c - a) / 2)"
  by (simp add: linearRegression_def js_div_def upt_3)



section \<open>Properties of the insight generator\<close>

subsection \<open>The steps append to the array\<close>

lemma overall_step_append:
  "NO_MATCH [] ins \<Longrightarrow> overall_step p1 p2 ins = ins @ overall_step p1 p2 []"
  by (simp add: overall_step_def push_def)

lemma consistency_step_append:
  "NO_MATCH [] ins \<Longrightarrow> consistency_step p1 p2 ins = ins @ consistency_step p1 p2 []"
  by (simp add: consistency_step_def push_def)

lemma winrate_step_append:
  "NO_MATCH [] ins \<Longrightarrow> winrate_step p1 p2 ins = ins @ winrate_step p1 p2 []"
  by (simp add: winrate_step_def push_def)

lemma trend_step_append:
  "NO_MATCH [] ins \<Longrightarrow> trend_step p t ins = ins @ trend_step p t []"
  by (simp add: trend_step_def push_def)

lemma specialization_step_append:
  "NO_MATCH [] ins \<Longrightarrow> specialization_step p ins = ins @ specialization_step p []"
  by (simp add: specialization_step_def push_def)

lemmas step_append = overall_step_append consistency_step_append winrate_step_append
  trend_step_append specialization_step_append

lemma generateInsights_steps:
  "generateInsights p1 p2 =
     overall_step p1 p2 [] @ consistency_step p1 p2 [] @ winrate_step p1 p2 []
       @ trend_step p1 (linearRegression (pStats p1)) []
       @ trend_step p2 (linearRegression (pStats p2)) []
       @ specialization_step p1 [] @ specialization_step p2 []"
  by (simp add: generateInsights_def Let_def step_append)

lemma length_overall_step: "length (overall_step p1 p2 []) = 1"
  by (simp add: overall_step_def push_def)

lemma length_consistency_step: "length (consistency_step p1 p2 []) \<le> 1"
  by (simp add: consistency_step_def push_def)

lemma length_winrate_step: "length (winrate_step p1 p2 []) \<le> 1"
  by (simp add: winrate_step_def push_def)

lemma length_trend_step: "length (trend_step p t []) \<le> 1"
  by (simp add: trend_step_def push_def)

lemma length_specialization_step: "length (specialization_step p []) \<le> 1"
  by (simp add: specialization_step_def push_def)

lemma Trend_closed:
  "linearRegression (pStats p) = Fin ((rat_of_int (rebounds p) - rat_of_int (score p)) / 2)"
  by (simp add: pStats_def linearRegression_3)

lemma overall_not_comparable: "overall_sentence a b \<noteq> comparable_sentence"
proof -
  have "CHR ''g'' \<in> set (overall_sentence a b)"
    by (simp add: overall_sentence_def)
  moreover have "CHR ''g'' \<notin> set comparable_sentence"
    by (simp add: comparable_sentence_def)
  ultimately show ?thesis by metis
qed

text \<open>
  C9. The insight generator returns at least 1 and at most 7 sentences: the overall step
  appends exactly one, the consistency and win-rate steps at most one each, the two trend
  steps together at most two, and the two specialization steps together at most two.
\<close>

theorem generateInsights_length_1_to_7:
  "1 \<le> length (generateInsights p1 p2) \<and> length (generateInsights p1 p2) \<le> 7
   \<and> length (overall_step p1 p2 ins) = length ins + 1
   \<and> length ins \<le> length (consistency_step p1 p2 ins)
   \<and> length (consistency_step p1 p2 ins) \<le> length ins + 1
   \<and> length ins \<le> length (winrate_step p1 p2 ins)
   \<and> length (winrate_step p1 p2 ins) \<le> length ins + 1
   \<and> length ins \<le> length (trend_step p2 t2 (trend_step p1 t1 ins))
   \<and> length (trend_step p2 t2 (trend_step p1 t1 ins)) \<le> length ins + 2
   \<and> length ins \<le> length (specialization_step p2 (specialization_step p1 ins))
   \<and> length (specialization_step p2 (specialization_step p1 ins)) \<le> length ins + 2"
proof -
  have a: "length (overall_step p1 p2 ins) = length ins + 1"
    by (simp add: overall_step_def push_def)
  have b: "length ins \<le> length (consistency_step p1 p2 ins)
      \<and> length (consistency_step p1 p2 ins) \<le> length ins + 1"
    by (simp add: consistency_step_def push_def)
  have c: "length ins \<le> length (winrate_step p1 p2 ins)
      \<and> length (winrate_step p1 p2 ins) \<le> length ins + 1"
    by (simp add: winrate_step_def push_def)
  have d: "length xs \<le> length (trend_step p t xs) \<and> length (trend_step p t xs) \<le> length xs + 1"
    for p t xs
    by (simp add: trend_step_def push_def)
  have e: "length xs \<le> length (specialization_step p xs)
      \<and> length (specialization_step p xs) \<le> length xs + 1" for p xs
    by (simp add: specialization_step_def push_def)
  have d2: "length ins \<le> length (trend_step p2 t2 (trend_step p1 t1 ins))
      \<and> length (trend_step p2 t2 (trend_step p1 t1 ins)) \<le> length ins + 2"
    using d [of ins p1 t1] d [of "trend_step p1 t1 ins" p2 t2] by linarith
  have e2: "length ins \<le> length (specialization_step p2 (specialization_step p1 ins))
      \<and> length (specialization_step p2 (specialization_step p1 ins)) \<le> length ins + 2"
    using e [of ins p1] e [of "specialization_step p1 ins" p2] by linarith
  have len: "length (generateInsights p1 p2) =
      length (overall_step p1 p2 []) + length (consistency_step p1 p2 [])
        + length (winrate_step p1 p2 [])
        + length (trend_step p1 (linearRegression (pStats p1)) [])
        + length (trend_step p2 (linearRegression (pStats p2)) [])
        + length (specialization_step p1 []) + length (specialization_step p2 [])"
    by (simp add: generateInsights_steps)
  have f: "1 \<le> length (generateInsights p1 p2) \<and> length (generateInsights p1 p2) \<le> 7"
    using len length_overall_step [of p1 p2] length_consistency_step [of p1 p2]
      length_winrate_step [of p1 p2] length_trend_step [of p1 "linearRegression (pStats p1)"]
      length_trend_step [of p2 "linearRegression (pStats p2)"]
      length_specialization_step [of p1] length_specialization_step [of p2]
    by linarith
  show ?thesis using a b c d2 e2 f by blast
qed

subsection \<open>Overall performance\<close>

text \<open>
  C4. The overall-performance step appends exactly one sentence, and it is the first
  sentence of the result. It is the comparable-performance sentence exactly when neither
  total is strictly greater than 1.2 times the other; otherwise it names a leader with both
  totals: player 1 when the total of player 1 exceeds 1.2 times that of player 2, else
  player 2. For totals 100 and 95 it is the comparable-performance sentence.
\<close>

theorem overall_step_exactly_one:
  "overall_step p1 p2 ins = ins @ [last (overall_step p1 p2 ins)]
   \<and> pTotal p1 = score p1 + assists p1 + rebounds p1
   \<and> overall_sentence p1 p2 =
        name p1 @ '' demonstrates significantly higher overall performance with ''
          @ show_int (pTotal p1) @ '' total stats vs '' @ show_int (pTotal p2) @ ''.''
   \<and> hd (generateInsights p1 p2) = last (overall_step p1 p2 ins)
   \<and> (last (overall_step p1 p2 ins) = comparable_sentence \<longleftrightarrow>
        \<not> rat_of_int (pTotal p1) > rat_of_int (pTotal p2) * (12 / 10)
        \<and> \<not> rat_of_int (pTotal p2) > rat_of_int (pTotal p1) * (12 / 10))
   \<and> (rat_of_int (pTotal p1) > rat_of_int (pTotal p2) * (12 / 10) \<longrightarrow>
        last (overall_step p1 p2 ins) = overall_sentence p1 p2)
   \<and> (\<not> rat_of_int (pTotal p1) > rat_of_int (pTotal p2) * (12 / 10)
        \<and> rat_of_int (pTotal p2) > rat_of_int (pTotal p1) * (12 / 10) \<longrightarrow>
        last (overall_step p1 p2 ins) = overall_sentence p2 p1)
   \<and> (pTotal p1 = 100 \<and> pTotal p2 = 95 \<longrightarrow>
        last (overall_step p1 p2 ins) = comparable_sentence)"
proof -
  have one: "overall_step p1 p2 ins = ins @ [last (overall_step p1 p2 ins)]"
    by (simp add: overall_step_def push_def)
  have first: "hd (generateInsights p1 p2) = last (overall_step p1 p2 ins)"
    by (simp add: generateInsights_steps overall_step_def push_def)
  have kinds: "last (overall_step p1 p2 ins) =
      (if rat_of_int (pTotal p1) > rat_of_int (pTotal p2) * (12 / 10) then overall_sentence p1 p2
       else if rat_of_int (pTotal p2) > rat_of_int (pTotal p1) * (12 / 10) then overall_sentence p2 p1
       else comparable_sentence)"
    by (simp add: overall_step_def push_def)
  have ex: "pTotal p1 = 100 \<and> pTotal p2 = 95 \<longrightarrow>
        last (overall_step p1 p2 ins) = comparable_sentence"
    by (simp add: kinds)
  have wording: "pTotal p1 = score p1 + assists p1 + rebounds p1
      \<and> overall_sentence p1 p2 =
        name p1 @ '' demonstrates significantly higher overall performance with ''
          @ show_int (pTotal p1) @ '' total stats vs '' @ show_int (pTotal p2) @ ''.''"
    by (simp add: pTotal_def overall_sentence_def)
  have rest: "hd (generateInsights p1 p2) = last (overall_step p1 p2 ins)
   \<and> (last (overall_step p1 p2 ins) = comparable_sentence \<longleftrightarrow>
        \<not> rat_of_int (pTotal p1) > rat_of_int (pTotal p2) * (12 / 10)
        \<and> \<not> rat_of_int (pTotal p2) > rat_of_int (pTotal p1) * (12 / 10))
   \<and> (rat_of_int (pTotal p1) > rat_of_int (pTotal p2) * (12 / 10) \<longrightarrow>
        last (overall_step p1 p2 ins) = overall_sentence p1 p2)
   \<and> (\<not> rat_of_int (pTotal p1) > rat_of_int (pTotal p2) * (12 / 10)
        \<and> rat_of_int (pTotal p2) > rat_of_int (pTotal p1) * (12 / 10) \<longrightarrow>
        last (overall_step p1 p2 ins) = overall_sentence p2 p1)
   \<and> (pTotal p1 = 100 \<and> pTotal p2 = 95 \<longrightarrow>
        last (overall_step p1 p2 ins) = comparable_sentence)"
    using first ex overall_not_comparable [of p1 p2] overall_not_comparable [of p2 p1]
    by (simp add: kinds)
  show ?thesis
    using one wording rest by blast
qed

theorem overall_step_exactly_one_witness:
  "pTotal ann = 100 \<and> pTotal bob = 95 \<and> overall_step ann bob [] = [comparable_sentence]
   \<and> rat_of_int (pTotal dee) > rat_of_int (pTotal eli) * (12 / 10)
   \<and> overall_step dee eli [] = [overall_sentence dee eli]
   \<and> overall_sentence dee eli =
       ''Dee demonstrates significantly higher overall performance with 120 total stats vs 90.''"
proof -
  have t: "pTotal ann = 100" "pTotal bob = 95" "pTotal dee = 120" "pTotal eli = 90"
    by (simp_all add: pTotal_def ann_def bob_def dee_def eli_def)
  have s: "overall_sentence dee eli =
       ''Dee demonstrates significantly higher overall performance with 120 total stats vs 90.''"
    by (simp add: overall_sentence_def t show_int_def decimal.simps) (simp add: dee_def)
  show ?thesis
    using overall_step_exactly_one [of ann bob "[]"] overall_step_exactly_one [of dee eli "[]"]
    by (simp add: t s) metis
qed

subsection \<open>Specialization\<close>

text \<open>
  C8. For one player, the specialization step appends the scorer sentence exactly when the
  score is strictly greater than both assists and rebounds, the playmaker sentence exactly
  when assists are strictly greater than both score and rebounds, and nothing otherwise:
  nothing when rebounds are a maximum of the three, alone or tied, and nothing when score
  and assists are tied.
\<close>

theorem specialization_step_cases:
  "(specialization_step p ins = ins @ [scorer_sentence p] \<longleftrightarrow>
      score p > assists p \<and> score p > rebounds p)
   \<and> (specialization_step p ins = ins @ [playmaker_sentence p] \<longleftrightarrow>
      assists p > score p \<and> assists p > rebounds p)
   \<and> (specialization_step p ins = ins \<longleftrightarrow>
      \<not> (score p > assists p \<and> score p > rebounds p)
      \<and> \<not> (assists p > score p \<and> assists p > rebounds p))
   \<and> (rebounds p \<ge> score p \<and> rebounds p \<ge> assists p \<longrightarrow> specialization_step p ins = ins)
   \<and> (score p = assists p \<longrightarrow> specialization_step p ins = ins)"
proof -
  have ne: "scorer_sentence p \<noteq> playmaker_sentence p"
    by (simp add: scorer_sentence_def playmaker_sentence_def)
  show ?thesis
    using ne by (auto simp add: specialization_step_def push_def)
qed

theorem specialization_step_cases_witness:
  "specialization_step ann [] = [scorer_sentence ann]
   \<and> specialization_step eli [] = [playmaker_sentence eli]
   \<and> specialization_step bob [] = []
   \<and> specialization_step cyd [] = []"
  using specialization_step_cases [of ann "[]"] specialization_step_cases [of eli "[]"]
    specialization_step_cases [of bob "[]"] specialization_step_cases [of cyd "[]"]
  by (simp add: ann_def bob_def cyd_def eli_def)

subsection \<open>Evaluating \<open>toFixed1\<close>\<close>

lemma floor_rat_numeral:
  "\<lfloor>numeral a / numeral b :: rat\<rfloor> = numeral a div numeral b"
  by (metis floor_divide_of_int_eq of_int_numeral)

lemmas toFixed1_eval = toFixed1_def Let_def decimal.simps floor_rat_numeral

lemma toFixed1_80: "toFixed1 80 = ''80.0''"
  by (simp add: toFixed1_eval)

lemma toFixed1_40: "toFixed1 40 = ''40.0''"
  by (simp add: toFixed1_eval)

subsection \<open>Win rate\<close>



subsection \<open>Order of the sentences\<close>

text \<open>
  C7. The result is the concatenation, in this order, of what the steps append: overall
  performance, consistency, win rate, the trend of player 1, the trend of player 2, the
  specialization of player 1, the specialization of player 2. Each part holds only
  sentences of its own step (and, in the per-player steps, of its own player), and the
  whole has at most 8 sentences.
\<close>

theorem generateInsights_order:
  "generateInsights p1 p2 =
     overall_step p1 p2 [] @ consistency_step p1 p2 [] @ winrate_step p1 p2 []
       @ trend_step p1 (linearRegression (pStats p1)) []
       @ trend_step p2 (linearRegression (pStats p2)) []
       @ specialization_step p1 [] @ specialization_step p2 []
   \<and> length (generateInsights p1 p2) \<le> 8
   \<and> set (overall_step p1 p2 [])
        \<subseteq> {overall_sentence p1 p2, overall_sentence p2 p1, comparable_sentence}
   \<and> set (consistency_step p1 p2 []) \<subseteq> {consistency_sentence p1 p2, consistency_sentence p2 p1}
   \<and> set (winrate_step p1 p2 []) \<subseteq> {winrate_sentence p1 p2, winrate_sentence p2 p1}
   \<and> set (trend_step p t []) \<subseteq> {improving_sentence p, declining_sentence p}
   \<and> set (specialization_step p []) \<subseteq> {scorer_sentence p, playmaker_sentence p}"
proof -
  have len: "length (generateInsights p1 p2) \<le> 8"
    using length_overall_step [of p1 p2] length_consistency_step [of p1 p2]
      length_winrate_step [of p1 p2] length_trend_step [of p1 "linearRegression (pStats p1)"]
      length_trend_step [of p2 "linearRegression (pStats p2)"]
      length_specialization_step [of p1] length_specialization_step [of p2]
    by (simp add: generateInsights_steps)
  have s1: "set (overall_step p1 p2 [])
        \<subseteq> {overall_sentence p1 p2, overall_sentence p2 p1, comparable_sentence}"
    by (auto simp add: overall_step_def push_def)
  have s2: "set (consistency_step p1 p2 [])
        \<subseteq> {consistency_sentence p1 p2, consistency_sentence p2 p1}"
    by (auto simp add: consistency_step_def push_def)
  have s3: "set (winrate_step p1 p2 []) \<subseteq> {winrate_sentence p1 p2, winrate_sentence p2 p1}"
    by (auto simp add: winrate_step_def push_def)
  have s4: "set (trend_step p t []) \<subseteq> {improving_sentence p, declining_sentence p}"
    by (auto simp add: trend_step_def push_def)
  have s5: "set (specialization_step p []) \<subseteq> {scorer_sentence p, playmaker_sentence p}"
    by (auto simp add: specialization_step_def push_def)
  show ?thesis
    using generateInsights_steps [of p1 p2] len s1 s2 s3 s4 s5 by blast
qed

theorem generateInsights_order_witness:
  "generateInsights ann bob =
     [''Both players show comparable overall performance levels.'',
      ''Ann has a superior win rate of 80.0% compared to 40.0%.'',
      ''Ann shows a declining trend in certain performance areas.'',
      ''Bob shows an improving performance trend across different metrics.'',
      ''Ann is primarily a scorer with 50 points.'']"
proof -
  have 1: "overall_step ann bob [] = [''Both players show comparable overall performance levels.'']"
    by (simp add: overall_step_def push_def pTotal_def comparable_sentence_def ann_def bob_def)
  have 2: "consistency_step ann bob [] = []"
    by (simp add: consistency_step_def push_def pConsistency_def pTotal_def ann_def bob_def)
  have 3: "winrate_step ann bob [] = [''Ann has a superior win rate of 80.0% compared to 40.0%.'']"
    by (simp add: winrate_step_def push_def pWinRate_def winrate_sentence_def ann_def bob_def
        toFixed1_80 toFixed1_40)
  have 4: "trend_step ann (linearRegression (pStats ann)) []
      = [''Ann shows a declining trend in certain performance areas.'']"
    by (simp add: Trend_closed trend_step_def push_def declining_sentence_def ann_def)
  have 5: "trend_step bob (linearRegression (pStats bob)) []
      = [''Bob shows an improving performance trend across different metrics.'']"
    by (simp add: Trend_closed trend_step_def push_def improving_sentence_def bob_def)
  have 6: "specialization_step ann [] = [''Ann is primarily a scorer with 50 points.'']"
    by (simp add: specialization_step_def push_def scorer_sentence_def show_int_def
        decimal.simps ann_def)
  have 7: "specialization_step bob [] = []"
    by (simp add: specialization_step_def bob_def)
  show ?thesis
    using generateInsights_order [of ann bob] by (simp add: 1 2 3 4 5 6 7)
qed

subsection \<open>Trend direction\<close>

lemma direction_label_Fin:
  "direction_label (Fin s) =
     (if s > 0 then ''Improving performance''
      else if s < 0 then ''Declining performance'' else ''Stable performance'')"
  by (simp add: direction_label_def)

lemma trend_step_Fin:
  "trend_step p (Fin s) ins =
     (if s > 1 / 2 then ins @ [improving_sentence p]
      else if s < - (1 / 2) then ins @ [declining_sentence p] else ins)"
  by (simp add: trend_step_def push_def)

text \<open>
  C5. The response reports for each player the slope of \<open>[score, assists, rebounds]\<close>,
  the same value the insight generator passes to its trend step, and a direction label
  chosen by the sign of that slope: improving exactly when it is positive, declining
  exactly when it is negative, stable exactly when it is 0. The trend step of the insight
  generator uses the band of 0.5 instead: it appends the improving sentence above 0.5,
  the declining sentence below -0.5 and nothing in between. A player with equal score,
  assists and rebounds has slope 0, the label stable and no trend sentence.
\<close>

theorem direction_by_sign_of_slope:
  "trends (build_payload p1 p2) =
     \<lparr>of_player1 = \<lparr>slope = linearRegression (pStats p1),
                     direction = direction_label (linearRegression (pStats p1))\<rparr>,
      of_player2 = \<lparr>slope = linearRegression (pStats p2),
                     direction = direction_label (linearRegression (pStats p2))\<rparr>\<rparr>
   \<and> insights_of (build_payload p1 p2) =
       overall_step p1 p2 [] @ consistency_step p1 p2 [] @ winrate_step p1 p2 []
         @ trend_step p1 (linearRegression (pStats p1)) []
         @ trend_step p2 (linearRegression (pStats p2)) []
         @ specialization_step p1 [] @ specialization_step p2 []
   \<and> linearRegression (pStats p) = Fin ((rat_of_int (rebounds p) - rat_of_int (score p)) / 2)
   \<and> (direction_label (Fin s) = ''Improving performance'' \<longleftrightarrow> s > 0)
   \<and> (direction_label (Fin s) = ''Declining performance'' \<longleftrightarrow> s < 0)
   \<and> (direction_label (Fin s) = ''Stable performance'' \<longleftrightarrow> s = 0)
   \<and> (trend_step p (Fin s) ins = ins @ [improving_sentence p] \<longleftrightarrow> s > 1 / 2)
   \<and> (trend_step p (Fin s) ins = ins @ [declining_sentence p] \<longleftrightarrow> s < - (1 / 2))
   \<and> (trend_step p (Fin s) ins = ins \<longleftrightarrow> - (1 / 2) \<le> s \<and> s \<le> 1 / 2)
   \<and> (score p = assists p \<and> assists p = rebounds p \<longrightarrow>
        linearRegression (pStats p) = Fin 0
        \<and> direction_label (linearRegression (pStats p)) = ''Stable performance''
        \<and> trend_step p (linearRegression (pStats p)) ins = ins)"
proof -
  have tr: "trends (build_payload p1 p2) =
     \<lparr>of_player1 = \<lparr>slope = linearRegression (pStats p1),
                     direction = direction_label (linearRegression (pStats p1))\<rparr>,
      of_player2 = \<lparr>slope = linearRegression (pStats p2),
                     direction = direction_label (linearRegression (pStats p2))\<rparr>\<rparr>"
    by (simp add: build_payload_def Let_def)
  have ins: "insights_of (build_payload p1 p2) =
       overall_step p1 p2 [] @ consistency_step p1 p2 [] @ winrate_step p1 p2 []
         @ trend_step p1 (linearRegression (pStats p1)) []
         @ trend_step p2 (linearRegression (pStats p2)) []
         @ specialization_step p1 [] @ specialization_step p2 []"
    by (simp add: build_payload_def Let_def generateInsights_steps)
  have d1: "direction_label (Fin s) = ''Improving performance'' \<longleftrightarrow> s > 0"
    by (simp add: direction_label_Fin)
  have d2: "direction_label (Fin s) = ''Declining performance'' \<longleftrightarrow> s < 0"
    by (simp add: direction_label_Fin)
  have d3: "direction_label (Fin s) = ''Stable performance'' \<longleftrightarrow> s = 0"
    by (auto simp add: direction_label_Fin)
  have ne: "improving_sentence p \<noteq> declining_sentence p"
    by (simp add: improving_sentence_def declining_sentence_def)
  have t1: "trend_step p (Fin s) ins = ins @ [improving_sentence p] \<longleftrightarrow> s > 1 / 2"
    using ne by (simp add: trend_step_Fin)
  have t2: "trend_step p (Fin s) ins = ins @ [declining_sentence p] \<longleftrightarrow> s < - (1 / 2)"
    using ne by (auto simp add: trend_step_Fin)
  have t3: "trend_step p (Fin s) ins = ins \<longleftrightarrow> - (1 / 2) \<le> s \<and> s \<le> 1 / 2"
    by (auto simp add: trend_step_Fin)
  have eq: "score p = assists p \<and> assists p = rebounds p \<longrightarrow>
        linearRegression (pStats p) = Fin 0
        \<and> direction_label (linearRegression (pStats p)) = ''Stable performance''
        \<and> trend_step p (linearRegression (pStats p)) ins = ins"
    by (simp add: Trend_closed direction_label_Fin trend_step_Fin)
  show ?thesis
    using tr ins Trend_closed [of p] d1 d2 d3 t1 t2 t3 eq by blast
qed

theorem direction_by_sign_of_slope_witness:
  "score cyd = assists cyd \<and> assists cyd = rebounds cyd
   \<and> trends (build_payload cyd cyd) =
       \<lparr>of_player1 = \<lparr>slope = Fin 0, direction = ''Stable performance''\<rparr>,
        of_player2 = \<lparr>slope = Fin 0, direction = ''Stable performance''\<rparr>\<rparr>
   \<and> trend_step cyd (linearRegression (pStats cyd)) [] = []"
proof -
  have h: "score cyd = assists cyd \<and> assists cyd = rebounds cyd"
    by (simp add: cyd_def)
  note t = direction_by_sign_of_slope [of cyd cyd cyd 0 "[]"]
  have z: "linearRegression (pStats cyd) = Fin 0
        \<and> direction_label (linearRegression (pStats cyd)) = ''Stable performance''
        \<and> trend_step cyd (linearRegression (pStats cyd)) [] = []"
    using h t by blast
  have "trends (build_payload cyd cyd) =
     \<lparr>of_player1 = \<lparr>slope = linearRegression (pStats cyd),
                     direction = direction_label (linearRegression (pStats cyd))\<rparr>,
      of_player2 = \<lparr>slope = linearRegression (pStats cyd),
                     direction = direction_label (linearRegression (pStats cyd))\<rparr>\<rparr>"
    using t by blast
  moreover have "linearRegression (pStats cyd) = Fin 0"
    using z by blast
  moreover have "direction_label (Fin 0) = ''Stable performance''"
    using z by metis
  moreover have "trend_step cyd (Fin 0) [] = []"
    using z by metis
  ultimately show ?thesis
    using h by simp
qed

section \<open>Properties of the request handler\<close>

lemma serve_thrown:
  "req_method req \<noteq> ''OPTIONS'' \<Longrightarrow> compare_players query req = Inl e \<Longrightarrow>
     status (serve query req) = 500 \<and> (\<exists>m. body (serve query req) = ErrorEnvelope m)"
  by (simp add: serve_def)

lemma compare_players_validation:
  "json req = Inr b \<Longrightarrow> falsy (player1Id b) \<or> falsy (player2Id b) \<Longrightarrow>
     compare_players query req = Inl (Error ''Both player IDs are required'')"
  by (simp add: compare_players_def)

lemma compare_players_store_error:
  "json req = Inr b \<Longrightarrow> error (query (player1Id b) (player2Id b)) = Some e \<Longrightarrow>
     \<exists>e'. compare_players query req = Inl e'"
  by (simp add: compare_players_def Let_def)

lemma compare_players_not_two:
  "json req = Inr b \<Longrightarrow>
     \<forall>ps. data (query (player1Id b) (player2Id b)) = Some ps \<longrightarrow> length ps \<noteq> 2 \<Longrightarrow>
     \<exists>e'. compare_players query req = Inl e'"
  by (auto simp add: compare_players_def Let_def split: option.splits)

lemma serve_ann_bob:
  "serve (select_in [ann, bob])
       \<lparr>req_method = ''POST'', json = Inr \<lparr>player1Id = Str ''a1'', player2Id = Str ''b2''\<rparr>\<rparr>
     = \<lparr>status = 200, body = Result (build_payload ann bob)\<rparr>"
proof -
  have ids: "id' ann = ''a1''" "id' bob = ''b2''"
    by (simp_all add: ann_def bob_def)
  show ?thesis
    by (simp add: serve_def compare_players_def select_in_def ids)
qed

text \<open>
  C3. A request other than an OPTIONS pre-flight whose body lacks an identifier or has an
  empty one, or whose lookup signals an error or does not return exactly two records, is
  answered with status 500 and a body that is the error envelope, so without comparison,
  trends or insights. (An OPTIONS request is answered with status 200 and no body
  before its identifiers are read.)
\<close>

theorem serve_failure_envelope:
  assumes "req_method req \<noteq> ''OPTIONS''"
    and "json req = Inr b"
    and "falsy (player1Id b) \<or> falsy (player2Id b)
         \<or> error (query (player1Id b) (player2Id b)) \<noteq> None
         \<or> (\<forall>ps. data (query (player1Id b) (player2Id b)) = Some ps \<longrightarrow> length ps \<noteq> 2)"
  shows "status (serve query req) = 500
         \<and> (\<exists>m. body (serve query req) = ErrorEnvelope m)
         \<and> (\<forall>p. body (serve query req) \<noteq> Result p)"
proof -
  have "\<exists>e. compare_players query req = Inl e"
    using assms(2,3) compare_players_validation [of req b query]
      compare_players_store_error [of req b query] compare_players_not_two [of req b query]
    by blast
  then obtain e where "compare_players query req = Inl e" ..
  then have "status (serve query req) = 500 \<and> (\<exists>m. body (serve query req) = ErrorEnvelope m)"
    using assms(1) serve_thrown by blast
  then show ?thesis by auto
qed

theorem serve_failure_envelope_witness:
  "serve (select_in [ann, bob])
       \<lparr>req_method = ''POST'', json = Inr \<lparr>player1Id = Str ''a1'', player2Id = Undefined\<rparr>\<rparr>
     = \<lparr>status = 500, body = ErrorEnvelope ''Both player IDs are required''\<rparr>
   \<and> serve (select_in [ann, bob])
       \<lparr>req_method = ''POST'', json = Inr \<lparr>player1Id = Str ''a1'', player2Id = Str ''zz''\<rparr>\<rparr>
     = \<lparr>status = 500, body = ErrorEnvelope ''Could not find both players''\<rparr>
   \<and> serve (failing_store NonError)
       \<lparr>req_method = ''POST'', json = Inr \<lparr>player1Id = Str ''a1'', player2Id = Str ''b2''\<rparr>\<rparr>
     = \<lparr>status = 500, body = ErrorEnvelope ''Unknown error''\<rparr>"
proof -
  have 1: "status (serve (select_in [ann, bob])
       \<lparr>req_method = ''POST'', json = Inr \<lparr>player1Id = Str ''a1'', player2Id = Undefined\<rparr>\<rparr>) = 500"
    using serve_failure_envelope [of "\<lparr>req_method = ''POST'',
        json = Inr \<lparr>player1Id = Str ''a1'', player2Id = Undefined\<rparr>\<rparr>"
        "\<lparr>player1Id = Str ''a1'', player2Id = Undefined\<rparr>" "select_in [ann, bob]"]
    by simp
  have 2: "status (serve (select_in [ann, bob])
       \<lparr>req_method = ''POST'', json = Inr \<lparr>player1Id = Str ''a1'', player2Id = Str ''zz''\<rparr>\<rparr>) = 500"
    using serve_failure_envelope [of "\<lparr>req_method = ''POST'',
        json = Inr \<lparr>player1Id = Str ''a1'', player2Id = Str ''zz''\<rparr>\<rparr>"
        "\<lparr>player1Id = Str ''a1'', player2Id = Str ''zz''\<rparr>" "select_in [ann, bob]"]
    by (simp add: select_in_def ann_def bob_def)
  have 3: "status (serve (failing_store NonError)
       \<lparr>req_method = ''POST'', json = Inr \<lparr>player1Id = Str ''a1'', player2Id = Str ''b2''\<rparr>\<rparr>) = 500"
    using serve_failure_envelope [of "\<lparr>req_method = ''POST'',
        json = Inr \<lparr>player1Id = Str ''a1'', player2Id = Str ''b2''\<rparr>\<rparr>"
        "\<lparr>player1Id = Str ''a1'', player2Id = Str ''b2''\<rparr>" "failing_store NonError"]
    by (simp add: failing_store_def)
  have b1: "body (serve (select_in [ann, bob])
       \<lparr>req_method = ''POST'', json = Inr \<lparr>player1Id = Str ''a1'', player2Id = Undefined\<rparr>\<rparr>)
      = ErrorEnvelope ''Both player IDs are required''"
    by (simp add: serve_def compare_players_def)
  have b2: "body (serve (select_in [ann, bob])
       \<lparr>req_method = ''POST'', json = Inr \<lparr>player1Id = Str ''a1'', player2Id = Str ''zz''\<rparr>\<rparr>)
      = ErrorEnvelope ''Could not find both players''"
    by (simp add: serve_def compare_players_def select_in_def ann_def bob_def)
  have b3: "body (serve (failing_store NonError)
       \<lparr>req_method = ''POST'', json = Inr \<lparr>player1Id = Str ''a1'', player2Id = Str ''b2''\<rparr>\<rparr>)
      = ErrorEnvelope ''Unknown error''"
    by (simp add: serve_def compare_players_def failing_store_def)
  have r: "r = \<lparr>status = status r, body = body r\<rparr>" for r :: response
    by simp
  show ?thesis
    using 1 2 3 b1 b2 b3 by (metis r)
qed

text \<open>
  An OPTIONS request whose body has no identifiers is answered with status 200 and no
  body, not with status 500 and the error envelope.
\<close>

theorem serve_options_missing_ids:
  "falsy (player1Id \<lparr>player1Id = Undefined, player2Id = Undefined\<rparr>)
   \<and> serve (select_in [ann, bob])
       \<lparr>req_method = ''OPTIONS'', json = Inr \<lparr>player1Id = Undefined, player2Id = Undefined\<rparr>\<rparr>
     = \<lparr>status = 200, body = NoBody\<rparr>
   \<and> status (serve (select_in [ann, bob])
       \<lparr>req_method = ''OPTIONS'', json = Inr \<lparr>player1Id = Undefined, player2Id = Undefined\<rparr>\<rparr>)
     \<noteq> 500"
  by (simp add: serve_def)

subsection \<open>Equal identifiers\<close>







end
